theory Spec2Isabelle
  imports Complex_Main "HOL-Library.Sublist"
begin

section \<open>JavaScript values\<close>

text \<open>
  The relay (server.js) receives the upstream body through \<open>response.json()\<close> and hands
  JavaScript values to \<open>res.json\<close>.  The model works on those values: what
  \<open>JSON.parse\<close> can produce, plus \<open>undefined\<close>, which reading a missing property yields.

  A number is a rational: every finite double is one, and \<open>0\<close> and \<open>-0\<close>, which the
  handlers cannot tell apart, coincide.  An object is the list of its own properties in
  insertion order (\<open>JSON.parse\<close> leaves each key once).  Log lines written with
  \<open>console.log\<close> are not part of the model, except where building the line can throw.
\<close>

datatype json =
    JUndefined
  | JNull
  | JBool bool
  | JNum rat
  | JStr string
  | JArr "json list"
  | JObj "(string \<times> json) list"

text \<open>
  What a handler can throw.  \<open>Error m\<close> is \<open>new Error(m)\<close> (or a rejection of
  \<open>fetch\<close> or \<open>response.json()\<close> with message \<open>m\<close>); a \<open>TypeError\<close> is raised by
  the engine, and its message is the engine's wording, taken as a parameter.
\<close>

datatype type_error =
    ReadOfNullish string   \<comment> \<open>reading the named property of \<open>null\<close> or \<open>undefined\<close>\<close>
  | NotAFunction string    \<comment> \<open>calling the named property, which is not a function\<close>
  | NotPrimitive           \<comment> \<open>an object that cannot be converted to a string\<close>

datatype js_error = Error string | TypeError type_error

definition and_then :: "js_error + 'a \<Rightarrow> ('a \<Rightarrow> js_error + 'b) \<Rightarrow> js_error + 'b" where
  "and_then r f = (case r of Inl e \<Rightarrow> Inl e | Inr v \<Rightarrow> f v)"

subsection \<open>Truthiness and \<open>||\<close>\<close>

text \<open>\<open>!v\<close> is true exactly for \<open>undefined\<close>, \<open>null\<close>, \<open>false\<close>, \<open>0\<close> and \<open>""\<close>.\<close>

fun truthy :: "json \<Rightarrow> bool" where
  "truthy JUndefined = False"
| "truthy JNull = False"
| "truthy (JBool b) = b"
| "truthy (JNum n) = (n \<noteq> 0)"
| "truthy (JStr s) = (s \<noteq> [])"
| "truthy (JArr xs) = True"
| "truthy (JObj kvs) = True"

definition js_or :: "json \<Rightarrow> json \<Rightarrow> json" where
  "js_or a b = (if truthy a then a else b)"

subsection \<open>Numbers as strings\<close>

text \<open>
  Decimal rendering of an integer, as \<open>String(n)\<close> and a template literal give it for a
  safe integer (below two to the power 53 in absolute value), as status codes, clock
  readings and lengths are.  For any other number the digits are the engine's, taken as
  the parameter \<open>nt\<close>.
\<close>

fun digits :: "nat \<Rightarrow> string" where
  "digits n = (if n < 10 then [''0123456789'' ! n]
               else digits (n div 10) @ [''0123456789'' ! (n mod 10)])"

definition show_int :: "int \<Rightarrow> string" where
  "show_int i = (if i < 0 then CHR ''-'' # digits (nat (- i)) else digits (nat i))"

definition number_string :: "(rat \<Rightarrow> string) \<Rightarrow> rat \<Rightarrow> string" where
  "number_string nt q =
     (if of_int \<lfloor>q\<rfloor> = q \<and> \<bar>q\<bar> < 2 ^ 53 then show_int \<lfloor>q\<rfloor> else nt q)"

subsection \<open>Property reads\<close>

text \<open>
  \<open>v[i]\<close> for a literal index \<open>i\<close>: an element of an array, a one-character string of a
  string, the own property named by the decimal of \<open>i\<close> of an object, \<open>undefined\<close> when
  there is none (also on a number or a boolean), and a \<open>TypeError\<close> on \<open>null\<close> and
  \<open>undefined\<close>.
\<close>

fun js_index :: "json \<Rightarrow> nat \<Rightarrow> js_error + json" where
  "js_index JUndefined i = Inl (TypeError (ReadOfNullish (digits i)))"
| "js_index JNull i = Inl (TypeError (ReadOfNullish (digits i)))"
| "js_index (JArr xs) i = Inr (if i < length xs then xs ! i else JUndefined)"
| "js_index (JStr s) i = Inr (if i < length s then JStr [s ! i] else JUndefined)"
| "js_index (JObj kvs) i = Inr (case map_of kvs (digits i) of Some v \<Rightarrow> v | None \<Rightarrow> JUndefined)"
| "js_index (JBool b) i = Inr JUndefined"
| "js_index (JNum n) i = Inr JUndefined"

text \<open>
  \<open>v.name\<close> for the names the handlers read from the parsed body (\<open>success\<close>, \<open>data\<close>,
  \<open>error\<close>), which no prototype defines: the own property of an object, \<open>undefined\<close>
  on every other value except \<open>null\<close> and \<open>undefined\<close>, where the read throws.
\<close>

fun js_field :: "json \<Rightarrow> string \<Rightarrow> js_error + json" where
  "js_field JUndefined name = Inl (TypeError (ReadOfNullish name))"
| "js_field JNull name = Inl (TypeError (ReadOfNullish name))"
| "js_field (JObj kvs) name = Inr (case map_of kvs name of Some v \<Rightarrow> v | None \<Rightarrow> JUndefined)"
| "js_field v name = Inr JUndefined"

subsection \<open>Conversion to a string\<close>

text \<open>
  \<open>String(v)\<close>, as \<open>new Error(v)\<close> and a template literal apply it.  An array is its
  elements joined by commas, \<open>null\<close> and \<open>undefined\<close> elements giving nothing; an object
  is \<open>[object Object]\<close> through \<open>Object.prototype.toString\<close>, unless an own property
  \<open>toString\<close> (never a function in parsed JSON) hides that method, and then the
  conversion throws.
\<close>

fun to_string :: "(rat \<Rightarrow> string) \<Rightarrow> json \<Rightarrow> js_error + string"
  and join :: "(rat \<Rightarrow> string) \<Rightarrow> json list \<Rightarrow> js_error + string" where
  "to_string nt JUndefined = Inr ''undefined''"
| "to_string nt JNull = Inr ''null''"
| "to_string nt (JBool b) = Inr (if b then ''true'' else ''false'')"
| "to_string nt (JNum n) = Inr (number_string nt n)"
| "to_string nt (JStr s) = Inr s"
| "to_string nt (JArr xs) = join nt xs"
| "to_string nt (JObj kvs) =
     (if map_of kvs ''toString'' = None then Inr ''[object Object]''
      else Inl (TypeError NotPrimitive))"
| "join nt [] = Inr []"
| "join nt (JUndefined # xs) =
     (if xs = [] then Inr [] else and_then (join nt xs) (\<lambda>t. Inr ('','' @ t)))"
| "join nt (JNull # xs) =
     (if xs = [] then Inr [] else and_then (join nt xs) (\<lambda>t. Inr ('','' @ t)))"
| "join nt (x # xs) =
     and_then (to_string nt x) (\<lambda>s.
       if xs = [] then Inr s else and_then (join nt xs) (\<lambda>t. Inr (s @ '','' @ t)))"

text \<open>\<open>new Error(v)\<close>: the message is \<open>String(v)\<close>, and empty when \<open>v\<close> is \<open>undefined\<close>.\<close>

definition new_Error :: "(rat \<Rightarrow> string) \<Rightarrow> json \<Rightarrow> js_error + js_error" where
  "new_Error nt v = (if v = JUndefined then Inr (Error [])
                     else and_then (to_string nt v) (\<lambda>m. Inr (Error m)))"

definition throw_new_Error :: "(rat \<Rightarrow> string) \<Rightarrow> json \<Rightarrow> js_error + 'a" where
  "throw_new_Error nt v = and_then (new_Error nt v) Inl"

text \<open>\<open>error.message\<close> of a caught error, under the engine's wording \<open>wd\<close>.\<close>

fun message :: "(type_error \<Rightarrow> string) \<Rightarrow> js_error \<Rightarrow> string" where
  "message wd (Error m) = m"
| "message wd (TypeError t) = wd t"

subsection \<open>Arrays\<close>

text \<open>\<open>Array.isArray(v)\<close>, and the elements of an array.\<close>

fun isArray :: "json \<Rightarrow> bool" where
  "isArray (JArr xs) = True"
| "isArray v = False"

fun elements :: "json \<Rightarrow> json list" where
  "elements (JArr xs) = xs"
| "elements v = []"

text \<open>
  \<open>v?.length\<close>: \<open>undefined\<close> on \<open>null\<close> and \<open>undefined\<close>, the length of an array or a
  string, the own property \<open>length\<close> of an object, \<open>undefined\<close> otherwise.
\<close>

fun opt_length :: "json \<Rightarrow> json" where
  "opt_length (JArr xs) = JNum (of_nat (length xs))"
| "opt_length (JStr s) = JNum (of_nat (length s))"
| "opt_length (JObj kvs) = (case map_of kvs ''length'' of Some v \<Rightarrow> v | None \<Rightarrow> JUndefined)"
| "opt_length v = JUndefined"

text \<open>
  \<open>v?.slice(0, 5)\<close>: \<open>undefined\<close> on \<open>null\<close> and \<open>undefined\<close>, the first five
  elements of an array or characters of a string; on any other value \<open>slice\<close> is not a
  function and the call throws.
\<close>

fun opt_slice5 :: "json \<Rightarrow> js_error + json" where
  "opt_slice5 JUndefined = Inr JUndefined"
| "opt_slice5 JNull = Inr JUndefined"
| "opt_slice5 (JArr xs) = Inr (JArr (take 5 xs))"
| "opt_slice5 (JStr s) = Inr (JStr (take 5 s))"
| "opt_slice5 v = Inl (TypeError (NotAFunction ''result.data?.slice''))"

section \<open>The column remap of /fetch-pif\<close>

text \<open>
  The callback of \<open>result.data.map\<close> (server.js, lines 102-112): five cells read from
  the upstream row at indices 0, 2, 1, 3, 3, each replaced by \<open>''\<close> when falsy.
\<close>

definition relay_row :: "json \<Rightarrow> js_error + json" where
  "relay_row row =
     and_then (js_index row 0) (\<lambda>c0.
     and_then (js_index row 2) (\<lambda>c1.
     and_then (js_index row 1) (\<lambda>c2.
     and_then (js_index row 3) (\<lambda>c3.
     and_then (js_index row 3) (\<lambda>c4.
       Inr (JArr [js_or c0 (JStr ''''), js_or c1 (JStr ''''), js_or c2 (JStr ''''),
                  js_or c3 (JStr ''''), js_or c4 (JStr '''')]))))))"

text \<open>\<open>Array.prototype.map\<close> with a callback that may throw: the first throw ends the map.\<close>

fun map_rows :: "(json \<Rightarrow> js_error + json) \<Rightarrow> json list \<Rightarrow> js_error + json list" where
  "map_rows f [] = Inr []"
| "map_rows f (r # rs) =
     and_then (f r) (\<lambda>r'. and_then (map_rows f rs) (\<lambda>rs'. Inr (r' # rs')))"

definition transformedData :: "json list \<Rightarrow> js_error + json list" where
  "transformedData rows = map_rows relay_row rows"

section \<open>The environment of a request\<close>

text \<open>
  What a handler reads from outside:
  \<^item> the outcome of \<open>fetch\<close>: a rejection (a network failure, or the 20 second timeout)
    with its message, or a response with its \<open>ok\<close> flag (whether the status is in the
    range 200-299), status and status text, whose \<open>json()\<close> either rejects or yields the
    parsed body;
  \<^item> the readings of \<open>Date.now()\<close> on entry and when \<open>elapsed\<close> is computed, and the
    string \<open>new Date().toISOString()\<close> returns when the body is built;
  \<^item> two things left to the engine: its wording of a \<open>TypeError\<close>, and its digits for
    a number that is not a safe integer.
\<close>

datatype parsed = Unparsable string | Parsed json

record response =
  ok :: bool
  status :: int
  statusText :: string
  json :: parsed

datatype fetched = Rejected string | Resolved response

record world =
  upstream :: fetched
  startTime :: int
  endTime :: int
  toISOString :: string
  wording :: "type_error \<Rightarrow> string"
  numberToString :: "rat \<Rightarrow> string"

text \<open>
  What a handler sends: the status code and the value given to \<open>res.json\<close> (or the text
  of \<open>res.sendStatus\<close>).  \<open>JSON.stringify\<close> leaves out a property whose value is
  \<open>undefined\<close>, so in a payload such a property stands for an absent one.  Response
  headers are not modelled.
\<close>

datatype payload = Json json | Text string

record reply =
  code :: nat
  payload :: payload

definition elapsed :: "world \<Rightarrow> string" where
  "elapsed w = show_int (endTime w - startTime w) @ ''ms''"

section \<open>The handlers\<close>

subsection \<open>GET / and GET /health\<close>

definition root :: "world \<Rightarrow> reply" where
  "root w = \<lparr>code = 200, payload = Json (JObj
     [(''status'', JStr ''ok''),
      (''timestamp'', JStr (toISOString w)),
      (''message'', JStr ''PIF+AI Lookup Relay - Active''),
      (''service'', JStr ''PIF+AI Sheet Data Provider''),
      (''endpoints'', JObj [(''health'', JStr ''GET /health''),
                            (''fetchPIF'', JStr ''GET /fetch-pif'')])])\<rparr>"

definition health :: "world \<Rightarrow> reply" where
  "health w = \<lparr>code = 200, payload = Json (JObj
     [(''status'', JStr ''ok''),
      (''service'', JStr ''PIF+AI Lookup Relay''),
      (''timestamp'', JStr (toISOString w))])\<rparr>"

subsection \<open>GET /fetch-pif\<close>

text \<open>The \<open>try\<close> block (lines 55-132): an error thrown inside is the \<open>Inl\<close> result.\<close>

definition fetch_pif_try :: "world \<Rightarrow> js_error + reply" where
  "fetch_pif_try w =
     (case upstream w of
        Rejected m \<Rightarrow> Inl (Error m)
      | Resolved response \<Rightarrow>
          if \<not> ok response then
            Inl (Error (''Apps Script returned '' @ show_int (status response) @ '': ''
                        @ statusText response))
          else
            (case json response of
               Unparsable m \<Rightarrow> Inl (Error m)
             | Parsed result \<Rightarrow>
                 and_then (js_field result ''success'') (\<lambda>success.
                 if \<not> truthy success then
                   and_then (js_field result ''error'') (\<lambda>error.
                   throw_new_Error (numberToString w)
                     (js_or error (JStr ''Apps Script returned success: false'')))
                 else
                   and_then (js_field result ''data'') (\<lambda>data.
                   if \<not> truthy data then Inl (Error ''Invalid data format from Apps Script'')
                   else if \<not> isArray data then
                     Inl (Error ''Invalid data format from Apps Script'')
                   else
                     and_then (transformedData (elements data)) (\<lambda>transformed.
                     Inr \<lparr>code = 200, payload = Json (JObj
                       [(''success'', JBool True),
                        (''data'', JArr transformed),
                        (''count'', JNum (of_nat (length transformed))),
                        (''source'', JStr ''PIF+AI Google Sheet''),
                        (''timestamp'', JStr (toISOString w)),
                        (''elapsed'', JStr (elapsed w))])\<rparr>)))))"

text \<open>The handler with its \<open>catch\<close> block (lines 134-144).\<close>

definition fetch_pif :: "world \<Rightarrow> reply" where
  "fetch_pif w =
     (case fetch_pif_try w of
        Inr sent \<Rightarrow> sent
      | Inl error \<Rightarrow> \<lparr>code = 500, payload = Json (JObj
          [(''success'', JBool False),
           (''error'', JStr (message (wording w) error)),
           (''timestamp'', JStr (toISOString w)),
           (''elapsed'', JStr (elapsed w))])\<rparr>)"

subsection \<open>GET /fetch-pif-raw\<close>

text \<open>
  The \<open>try\<close> block (lines 152-175).  The log line of line 167 converts
  \<open>result.data?.length || 0\<close> to a string inside a template literal, which can throw, so
  it is part of the model; then the four properties are evaluated in order.
\<close>

definition fetch_pif_raw_try :: "world \<Rightarrow> js_error + reply" where
  "fetch_pif_raw_try w =
     (case upstream w of
        Rejected m \<Rightarrow> Inl (Error m)
      | Resolved response \<Rightarrow>
          if \<not> ok response then
            Inl (Error (''Apps Script returned '' @ show_int (status response)))
          else
            (case json response of
               Unparsable m \<Rightarrow> Inl (Error m)
             | Parsed result \<Rightarrow>
                 and_then (js_field result ''data'') (\<lambda>logged.
                 and_then (to_string (numberToString w) (js_or (opt_length logged) (JNum 0))) (\<lambda>line.
                 and_then (js_field result ''success'') (\<lambda>success.
                 and_then (js_field result ''data'') (\<lambda>data.
                 and_then (opt_slice5 data) (\<lambda>sample.
                 Inr \<lparr>code = 200, payload = Json (JObj
                   [(''success'', success),
                    (''count'', js_or (opt_length data) (JNum 0)),
                    (''sample'', js_or sample (JArr [])),
                    (''fullData'', js_or data (JArr []))])\<rparr>)))))))"

text \<open>The handler with its \<open>catch\<close> block (lines 177-183).\<close>

definition fetch_pif_raw :: "world \<Rightarrow> reply" where
  "fetch_pif_raw w =
     (case fetch_pif_raw_try w of
        Inr sent \<Rightarrow> sent
      | Inl error \<Rightarrow> \<lparr>code = 500, payload = Json (JObj
          [(''success'', JBool False),
           (''error'', JStr (message (wording w) error))])\<rparr>)"

subsection \<open>Routing\<close>

text \<open>
  The middleware of lines 10-18 answers every \<open>OPTIONS\<close> request itself; any other
  request goes to the route registered for its method (\<open>req.method\<close>) and path.
  \<open>None\<close>: no handler of server.js answers.  A request is its method and path, the
  path as registered: no handler reads anything else of it.
\<close>

record request =
  http_method :: string
  path :: string

definition app :: "world \<Rightarrow> request \<Rightarrow> reply option" where
  "app w req =
     (if http_method req = ''OPTIONS'' then Some \<lparr>code = 200, payload = Text ''OK''\<rparr>
      else if http_method req = ''GET'' \<and> path req = ''/'' then Some (root w)
      else if http_method req = ''GET'' \<and> path req = ''/health'' then Some (health w)
      else if http_method req = ''GET'' \<and> path req = ''/fetch-pif'' then Some (fetch_pif w)
      else if http_method req = ''GET'' \<and> path req = ''/fetch-pif-raw'' then Some (fetch_pif_raw w)
      else None)"

text \<open>Reading a property of a payload, as a client of the JSON body does.\<close>

fun field :: "payload \<Rightarrow> string \<Rightarrow> json" where
  "field (Json (JObj kvs)) name = (case map_of kvs name of Some v \<Rightarrow> v | None \<Rightarrow> JUndefined)"
| "field p name = JUndefined"

section \<open>The specification's words\<close>

text \<open>
  The specification gives the relay row of an upstream row \<open>r\<close> (a sequence of cells) as
  \<open>[r[0]||'', r[2]||'', r[1]||'', r[3]||'', r[3]||'']\<close>: the cell at an index, or the
  empty string when there is no such cell or the cell is falsy.  These two definitions
  follow that sentence; \<open>relay_row\<close> above follows the code.
\<close>

definition spec_cell :: "json list \<Rightarrow> nat \<Rightarrow> json" where
  "spec_cell r i = (if i < length r \<and> truthy (r ! i) then r ! i else JStr '''')"

definition spec_relay_row :: "json list \<Rightarrow> json list" where
  "spec_relay_row r =
     [spec_cell r 0, spec_cell r 2, spec_cell r 1, spec_cell r 3, spec_cell r 3]"

text \<open>
  The specification asks for a well-formed ISO-8601 \<open>timestamp\<close>.  The form that
  \<open>toISOString\<close> gives an instant of the years 0000 to 9999 is
  \<open>YYYY-MM-DDTHH:mm:ss.sssZ\<close>: 24 characters, digits but for the separators.
\<close>

definition is_digit :: "char \<Rightarrow> bool" where
  "is_digit c = (c \<in> set ''0123456789'')"

definition iso8601 :: "string \<Rightarrow> bool" where
  "iso8601 s =
     (length s = 24
      \<and> list_all (\<lambda>i. is_digit (s ! i)) [0, 1, 2, 3, 5, 6, 8, 9, 11, 12, 14, 15, 17, 18, 20, 21, 22]
      \<and> s ! 4 = CHR ''-'' \<and> s ! 7 = CHR ''-'' \<and> s ! 10 = CHR ''T''
      \<and> s ! 13 = CHR '':'' \<and> s ! 16 = CHR '':'' \<and> s ! 19 = CHR ''.''
      \<and> s ! 23 = CHR ''Z'')"

section \<open>Example environments\<close>

text \<open>
  \<open>answered body\<close>: the upstream replied 200 OK with a body that parses to \<open>body\<close>,
  250 ms after the request started.  \<open>refused st txt\<close>: it replied with the non-OK status
  \<open>st\<close> and status text \<open>txt\<close>.  \<open>unreachable m\<close>: \<open>fetch\<close> rejected with message
  \<open>m\<close>.
\<close>

definition answered :: "json \<Rightarrow> world" where
  "answered body =
     \<lparr>upstream = Resolved \<lparr>ok = True, status = 200, statusText = ''OK'', json = Parsed body\<rparr>,
      startTime = 1700000000000, endTime = 1700000000250,
      toISOString = ''2023-11-14T22:13:20.250Z'',
      wording = (\<lambda>t. ''TypeError''), numberToString = (\<lambda>q. ''?'')\<rparr>"

definition refused :: "int \<Rightarrow> string \<Rightarrow> world" where
  "refused st txt = (answered JNull)\<lparr>upstream :=
     Resolved \<lparr>ok = False, status = st, statusText = txt, json = Unparsable []\<rparr>\<rparr>"

definition unreachable :: "string \<Rightarrow> world" where
  "unreachable m = (answered JNull)\<lparr>upstream := Rejected m\<rparr>"

section \<open>Auxiliary lemmas\<close>

declare digits.simps [simp del]

lemma and_then_Inr [simp]: "and_then (Inr v) f = f v"
  by (simp add: and_then_def)

lemma and_then_Inl [simp]: "and_then (Inl e) f = Inl e"
  by (simp add: and_then_def)

lemma elapsed_answered: "elapsed (answered body) = ''250ms''"
  by (simp add: elapsed_def answered_def show_int_def digits.simps)

lemma relay_row_JArr: "relay_row (JArr r) = Inr (JArr (spec_relay_row r))"
  by (simp add: relay_row_def spec_relay_row_def js_or_def spec_cell_def)

lemma js_index_defined:
  "row \<noteq> JNull \<Longrightarrow> row \<noteq> JUndefined \<Longrightarrow> \<exists>v. js_index row i = Inr v"
  by (cases row) simp_all

lemma relay_row_defined:
  assumes "row \<noteq> JNull" and "row \<noteq> JUndefined"
  shows "\<exists>cs. relay_row row = Inr (JArr cs) \<and> length cs = 5 \<and> cs ! 3 = cs ! 4"
proof -
  obtain a b c d where "js_index row 0 = Inr a" "js_index row 2 = Inr b"
      "js_index row 1 = Inr c" "js_index row 3 = Inr d"
    using assms js_index_defined by metis
  then show ?thesis by (simp add: relay_row_def)
qed

lemma relay_row_Inr_shape:
  "relay_row row = Inr v \<Longrightarrow> \<exists>cs. v = JArr cs \<and> length cs = 5 \<and> cs ! 3 = cs ! 4"
  by (cases "row = JNull \<or> row = JUndefined")
     (auto simp: relay_row_def dest: relay_row_defined)

lemma map_rows_Inr_nth:
  "map_rows f rows = Inr out \<Longrightarrow>
   length out = length rows \<and> (\<forall>i<length rows. f (rows ! i) = Inr (out ! i))"
proof (induction rows arbitrary: out)
  case Nil
  then show ?case by simp
next
  case (Cons r rows)
  then obtain v vs where "f r = Inr v" "map_rows f rows = Inr vs" "out = v # vs"
    by (auto simp: and_then_def split: sum.splits)
  with Cons.IH[of vs] show ?case by (simp add: nth_Cons split: nat.split)
qed

lemma map_rows_defined:
  "(\<And>r. r \<in> set rows \<Longrightarrow> \<exists>v. f r = Inr v) \<Longrightarrow> \<exists>out. map_rows f rows = Inr out"
proof (induction rows)
  case Nil
  then show ?case by simp
next
  case (Cons r rows)
  then obtain v where "f r = Inr v" by auto
  moreover from Cons obtain out where "map_rows f rows = Inr out" by auto
  ultimately show ?case by simp
qed

lemma transformedData_defined:
  assumes "JNull \<notin> set rows" and "JUndefined \<notin> set rows"
  shows "\<exists>out. transformedData rows = Inr out \<and> length out = length rows
           \<and> (\<forall>i<length rows. \<forall>r. rows ! i = JArr r \<longrightarrow> out ! i = JArr (spec_relay_row r))"
proof -
  have "\<exists>v. relay_row r = Inr v" if "r \<in> set rows" for r
    using that assms relay_row_defined [of r] by metis
  then obtain out where out: "map_rows relay_row rows = Inr out"
    using map_rows_defined [of rows relay_row] by blast
  from map_rows_Inr_nth [OF out]
  have len: "length out = length rows"
    and nth: "\<forall>i<length rows. relay_row (rows ! i) = Inr (out ! i)" by simp_all
  have "out ! i = JArr (spec_relay_row r)" if "i < length rows" "rows ! i = JArr r" for i r
  proof -
    have "relay_row (rows ! i) = Inr (out ! i)" using nth that(1) by blast
    then show ?thesis using that(2) by (simp add: relay_row_JArr)
  qed
  with out len show ?thesis by (simp add: transformedData_def)
qed

lemma fetch_pif_try_success:
  assumes "upstream w = Resolved response" "ok response" "json response = Parsed result"
    and "js_field result ''success'' = Inr success" "truthy success"
    and "js_field result ''data'' = Inr (JArr rows)"
    and "transformedData rows = Inr out"
  shows "fetch_pif_try w = Inr \<lparr>code = 200, payload = Json (JObj
           [(''success'', JBool True),
            (''data'', JArr out),
            (''count'', JNum (of_nat (length out))),
            (''source'', JStr ''PIF+AI Google Sheet''),
            (''timestamp'', JStr (toISOString w)),
            (''elapsed'', JStr (elapsed w))])\<rparr>"
  using assms by (simp add: fetch_pif_try_def)

lemma isArray_truthy: "isArray v \<Longrightarrow> truthy v"
  by (cases v) simp_all

lemma fetch_pif_try_parsed:
  assumes "upstream w = Resolved response" "ok response" "json response = Parsed result"
    and "js_field result ''success'' = Inr success"
    and "js_field result ''error'' = Inr error"
    and "js_field result ''data'' = Inr data"
  shows "fetch_pif_try w =
     (if \<not> truthy success then
        throw_new_Error (numberToString w) (js_or error (JStr ''Apps Script returned success: false''))
      else if \<not> isArray data then Inl (Error ''Invalid data format from Apps Script'')
      else and_then (transformedData (elements data)) (\<lambda>transformed.
             Inr \<lparr>code = 200, payload = Json (JObj
               [(''success'', JBool True),
                (''data'', JArr transformed),
                (''count'', JNum (of_nat (length transformed))),
                (''source'', JStr ''PIF+AI Google Sheet''),
                (''timestamp'', JStr (toISOString w)),
                (''elapsed'', JStr (elapsed w))])\<rparr>))"
  using assms isArray_truthy [of data] by (auto simp: fetch_pif_try_def)

lemma fetch_pif_caught:
  "fetch_pif_try w = Inl e \<Longrightarrow>
   fetch_pif w = \<lparr>code = 500, payload = Json (JObj
          [(''success'', JBool False),
           (''error'', JStr (message (wording w) e)),
           (''timestamp'', JStr (toISOString w)),
           (''elapsed'', JStr (elapsed w))])\<rparr>"
  by (simp add: fetch_pif_def)

lemma fetch_pif_raw_caught:
  "fetch_pif_raw_try w = Inl e \<Longrightarrow>
   fetch_pif_raw w = \<lparr>code = 500, payload = Json (JObj
          [(''success'', JBool False),
           (''error'', JStr (message (wording w) e))])\<rparr>"
  by (simp add: fetch_pif_raw_def)

lemma fetch_pif_raw_try_parsed:
  assumes "upstream w = Resolved response" "ok response" "json response = Parsed result"
    and "js_field result ''success'' = Inr success"
    and "js_field result ''data'' = Inr data"
  shows "fetch_pif_raw_try w =
     and_then (to_string (numberToString w) (js_or (opt_length data) (JNum 0))) (\<lambda>line.
     and_then (opt_slice5 data) (\<lambda>sample.
       Inr \<lparr>code = 200, payload = Json (JObj
         [(''success'', success),
          (''count'', js_or (opt_length data) (JNum 0)),
          (''sample'', js_or sample (JArr [])),
          (''fullData'', js_or data (JArr []))])\<rparr>))"
  using assms by (simp add: fetch_pif_raw_try_def)

lemma fetch_pif_try_sent:
  assumes "fetch_pif_try w = Inr sent"
  shows "\<exists>out. sent = \<lparr>code = 200, payload = Json (JObj
           [(''success'', JBool True),
            (''data'', JArr out),
            (''count'', JNum (of_nat (length out))),
            (''source'', JStr ''PIF+AI Google Sheet''),
            (''timestamp'', JStr (toISOString w)),
            (''elapsed'', JStr (elapsed w))])\<rparr>"
  using assms
  by (auto simp: fetch_pif_try_def and_then_def throw_new_Error_def
           split: fetched.splits parsed.splits sum.splits if_splits)

lemma fetch_pif_raw_try_sent:
  assumes "fetch_pif_raw_try w = Inr sent"
  shows "\<exists>success count sample full. sent = \<lparr>code = 200, payload = Json (JObj
           [(''success'', success),
            (''count'', count),
            (''sample'', sample),
            (''fullData'', full)])\<rparr>"
  using assms
  by (auto simp: fetch_pif_raw_try_def and_then_def
           split: fetched.splits parsed.splits sum.splits if_splits)

lemma fetch_pif_timestamp:
  "field (payload (fetch_pif w)) ''timestamp'' = JStr (toISOString w)"
proof (cases "fetch_pif_try w")
  case (Inl e)
  from fetch_pif_caught [OF this] show ?thesis by simp
next
  case (Inr sent)
  with fetch_pif_try_sent [OF Inr] show ?thesis by (auto simp: fetch_pif_def)
qed

lemma fetch_pif_raw_no_timestamp:
  "field (payload (fetch_pif_raw w)) ''timestamp'' = JUndefined"
proof (cases "fetch_pif_raw_try w")
  case (Inl e)
  from fetch_pif_raw_caught [OF this] show ?thesis by simp
next
  case (Inr sent)
  with fetch_pif_raw_try_sent [OF Inr] show ?thesis by (auto simp: fetch_pif_raw_def)
qed



lemma show_int_503: "show_int 503 = ''503''"
  by (simp add: show_int_def digits.simps)

section \<open>Properties of the column remap\<close>



text \<open>
  Claim C9.  For every upstream row of any length, also shorter than four cells or empty,
  the relay row has exactly five cells, and a cell read beyond the end of the row comes out
  as the empty string, not as an error.  So the whole transform succeeds on any list of
  rows of any lengths, and gives as many relay rows, each of five cells.
\<close>

theorem relay_row_five_cells:
  "(\<exists>out. relay_row (JArr r) = Inr (JArr out) \<and> length out = 5
      \<and> (length r \<le> 0 \<longrightarrow> out ! 0 = JStr '''')
      \<and> (length r \<le> 2 \<longrightarrow> out ! 1 = JStr '''')
      \<and> (length r \<le> 1 \<longrightarrow> out ! 2 = JStr '''')
      \<and> (length r \<le> 3 \<longrightarrow> out ! 3 = JStr '''' \<and> out ! 4 = JStr ''''))
   \<and> ((\<forall>row \<in> set rows. isArray row) \<longrightarrow>
        (\<exists>outs. transformedData rows = Inr outs \<and> length outs = length rows
           \<and> (\<forall>v \<in> set outs. \<exists>cs. v = JArr cs \<and> length cs = 5)))"
proof -
  have one: "\<exists>out. relay_row (JArr r) = Inr (JArr out) \<and> length out = 5
      \<and> (length r \<le> 0 \<longrightarrow> out ! 0 = JStr '''')
      \<and> (length r \<le> 2 \<longrightarrow> out ! 1 = JStr '''')
      \<and> (length r \<le> 1 \<longrightarrow> out ! 2 = JStr '''')
      \<and> (length r \<le> 3 \<longrightarrow> out ! 3 = JStr '''' \<and> out ! 4 = JStr '''')"
    by (simp add: relay_row_JArr spec_relay_row_def spec_cell_def)
  have all: "\<exists>outs. transformedData rows = Inr outs \<and> length outs = length rows
           \<and> (\<forall>v \<in> set outs. \<exists>cs. v = JArr cs \<and> length cs = 5)"
    if arrays: "\<forall>row \<in> set rows. isArray row"
  proof -
    have "\<exists>v. relay_row row = Inr v" if "row \<in> set rows" for row
    proof -
      from that arrays have "isArray row" by blast
      then obtain r where "row = JArr r" by (cases row) simp_all
      then show ?thesis by (simp add: relay_row_JArr)
    qed
    then obtain outs where outs: "map_rows relay_row rows = Inr outs"
      using map_rows_defined [of rows relay_row] by blast
    from map_rows_Inr_nth [OF outs]
    have len: "length outs = length rows"
      and nth: "\<forall>i<length rows. relay_row (rows ! i) = Inr (outs ! i)" by simp_all
    have "\<exists>cs. v = JArr cs \<and> length cs = 5" if "v \<in> set outs" for v
    proof -
      from that obtain i where "i < length outs" "v = outs ! i"
        by (auto simp: in_set_conv_nth)
      with len nth have "relay_row (rows ! i) = Inr v" by simp
      then show ?thesis using relay_row_Inr_shape by blast
    qed
    with outs len show ?thesis by (auto simp: transformedData_def)
  qed
  from one all show ?thesis by blast
qed

theorem relay_row_five_cells_witness:
  "relay_row (JArr []) = Inr (JArr [JStr '''', JStr '''', JStr '''', JStr '''', JStr ''''])
   \<and> relay_row (JArr [JStr ''x'', JStr ''SYM''])
       = Inr (JArr [JStr ''x'', JStr '''', JStr ''SYM'', JStr '''', JStr ''''])
   \<and> (\<exists>outs. transformedData [JArr [], JArr [JStr ''x'', JStr ''SYM'']] = Inr outs
          \<and> length outs = 2)"
proof -
  let ?rows = "[JArr [], JArr [JStr ''x'', JStr ''SYM'']]"
  have arrays: "\<forall>row \<in> set ?rows. isArray row" by simp
  have short: "length ([]::json list) \<le> 0" "length ([]::json list) \<le> 1"
    "length ([]::json list) \<le> 2" "length ([]::json list) \<le> 3" by simp_all
  from relay_row_five_cells [of "[]" ?rows] arrays
  obtain out outs where out: "relay_row (JArr []) = Inr (JArr out)" "length out = 5"
      "out ! 0 = JStr ''''" "out ! 1 = JStr ''''" "out ! 2 = JStr ''''"
      "out ! 3 = JStr ''''" "out ! 4 = JStr ''''"
    and outs: "transformedData ?rows = Inr outs" "length outs = length ?rows"
    using short by blast
  from out(2) obtain a b c d e where "out = [a, b, c, d, e]"
    by (auto simp: eval_nat_numeral length_Suc_conv)
  with out have empty: "relay_row (JArr []) = Inr (JArr [JStr '''', JStr '''', JStr '''', JStr '''', JStr ''''])"
    by simp
  have part: "relay_row (JArr [JStr ''x'', JStr ''SYM''])
       = Inr (JArr [JStr ''x'', JStr '''', JStr ''SYM'', JStr '''', JStr ''''])"
    by (simp add: relay_row_JArr spec_relay_row_def spec_cell_def)
  from empty part outs show ?thesis by simp
qed

section \<open>GET /fetch-pif: the success reply\<close>

text \<open>
  Claim C2, amended.  Whenever the upstream answered with an OK status and a body whose
  \<open>success\<close> is true (truthy) and whose \<open>data\<close> is an array none of whose elements is
  \<open>null\<close>, /fetch-pif replies 200 with \<open>{success: true, data, count, source, timestamp,
  elapsed}\<close>, where \<open>data\<close> has one relay row per upstream row (the remap of the row,
  for a row that is an array) and \<open>count\<close> is its length.
\<close>

theorem fetch_pif_success:
  assumes "upstream w = Resolved response" "ok response" "json response = Parsed result"
    and "js_field result ''success'' = Inr success" "truthy success"
    and "js_field result ''data'' = Inr (JArr rows)"
    and "JNull \<notin> set rows" "JUndefined \<notin> set rows"
  shows "\<exists>out. length out = length rows
           \<and> (\<forall>i<length rows. \<forall>r. rows ! i = JArr r \<longrightarrow> out ! i = JArr (spec_relay_row r))
           \<and> fetch_pif w = \<lparr>code = 200, payload = Json (JObj
                [(''success'', JBool True),
                 (''data'', JArr out),
                 (''count'', JNum (of_nat (length out))),
                 (''source'', JStr ''PIF+AI Google Sheet''),
                 (''timestamp'', JStr (toISOString w)),
                 (''elapsed'', JStr (elapsed w))])\<rparr>"
proof -
  from transformedData_defined [OF assms(7,8)] obtain out
    where out: "transformedData rows = Inr out" "length out = length rows"
      "\<forall>i<length rows. \<forall>r. rows ! i = JArr r \<longrightarrow> out ! i = JArr (spec_relay_row r)"
    by blast
  from fetch_pif_try_success [OF assms(1-6) out(1)] out(2,3)
  show ?thesis by (auto simp: fetch_pif_def)
qed

text \<open>
  The example of the specification: upstream \<open>{success: true, data: [["x", "SYM", "Name",
  "4.5"]]}\<close> gives data \<open>[["x", "Name", "SYM", "4.5", "4.5"]]\<close> and count 1.
\<close>

theorem fetch_pif_success_witness:
  "fetch_pif (answered (JObj [(''success'', JBool True),
       (''data'', JArr [JArr [JStr ''x'', JStr ''SYM'', JStr ''Name'', JStr ''4.5'']])]))
   = \<lparr>code = 200, payload = Json (JObj
        [(''success'', JBool True),
         (''data'', JArr [JArr [JStr ''x'', JStr ''Name'', JStr ''SYM'', JStr ''4.5'', JStr ''4.5'']]),
         (''count'', JNum 1),
         (''source'', JStr ''PIF+AI Google Sheet''),
         (''timestamp'', JStr ''2023-11-14T22:13:20.250Z''),
         (''elapsed'', JStr ''250ms'')])\<rparr>"
proof -
  let ?row = "[JStr ''x'', JStr ''SYM'', JStr ''Name'', JStr ''4.5'']"
  let ?result = "JObj [(''success'', JBool True), (''data'', JArr [JArr ?row])]"
  let ?w = "answered ?result"
  have "\<exists>out. length out = length [JArr ?row]
           \<and> (\<forall>i<length [JArr ?row]. \<forall>r. [JArr ?row] ! i = JArr r \<longrightarrow> out ! i = JArr (spec_relay_row r))
           \<and> fetch_pif ?w = \<lparr>code = 200, payload = Json (JObj
                [(''success'', JBool True),
                 (''data'', JArr out),
                 (''count'', JNum (of_nat (length out))),
                 (''source'', JStr ''PIF+AI Google Sheet''),
                 (''timestamp'', JStr (toISOString ?w)),
                 (''elapsed'', JStr (elapsed ?w))])\<rparr>"
    by (rule fetch_pif_success [where result = ?result and success = "JBool True"
          and response = "\<lparr>ok = True, status = 200, statusText = ''OK'', json = Parsed ?result\<rparr>"])
       (simp_all add: answered_def)
  then obtain out where len: "length out = 1"
    and row: "out ! 0 = JArr (spec_relay_row ?row)"
    and sent: "fetch_pif ?w = \<lparr>code = 200, payload = Json (JObj
                [(''success'', JBool True),
                 (''data'', JArr out),
                 (''count'', JNum (of_nat (length out))),
                 (''source'', JStr ''PIF+AI Google Sheet''),
                 (''timestamp'', JStr (toISOString ?w)),
                 (''elapsed'', JStr (elapsed ?w))])\<rparr>"
    by auto
  from len row have "out = [JArr (spec_relay_row ?row)]"
    by (cases out) simp_all
  then have "out = [JArr [JStr ''x'', JStr ''Name'', JStr ''SYM'', JStr ''4.5'', JStr ''4.5'']]"
    by (simp add: spec_relay_row_def spec_cell_def)
  with sent show ?thesis by (simp add: elapsed_answered) (simp add: answered_def)
qed

text \<open>
  The claim as written asks only for an array: with \<open>data: [null]\<close> the callback's
  \<open>row[0]\<close> throws and the reply is 500.
\<close>

theorem fetch_pif_null_row_counterexample:
  "isArray (JArr [JNull])
   \<and> code (fetch_pif (answered (JObj [(''success'', JBool True), (''data'', JArr [JNull])]))) = 500"
  by (simp add: fetch_pif_def fetch_pif_try_def answered_def transformedData_def relay_row_def)

section \<open>GET /fetch-pif: failures\<close>

text \<open>
  Claim C3, amended.  On /fetch-pif, when the parsed body has \<open>success\<close> false (falsy),
  the reply is 500 with \<open>success: false\<close> and, as \<open>error\<close>, the upstream's \<open>error\<close>
  when that is a non-empty string, and the generic message when \<open>error\<close> is absent or
  falsy (the empty string included).  When \<open>success\<close> is true and \<open>data\<close> is missing or
  not an array, the reply is 500 with the invalid-data-format message.
\<close>

theorem fetch_pif_format_errors:
  assumes "upstream w = Resolved response" "ok response" "json response = Parsed result"
    and "js_field result ''success'' = Inr success"
    and "js_field result ''error'' = Inr error"
    and "js_field result ''data'' = Inr data"
  shows "(\<not> truthy success \<and> error = JStr m \<and> m \<noteq> [] \<longrightarrow>
            code (fetch_pif w) = 500
          \<and> field (payload (fetch_pif w)) ''success'' = JBool False
          \<and> field (payload (fetch_pif w)) ''error'' = JStr m)
       \<and> (\<not> truthy success \<and> \<not> truthy error \<longrightarrow>
            code (fetch_pif w) = 500
          \<and> field (payload (fetch_pif w)) ''success'' = JBool False
          \<and> field (payload (fetch_pif w)) ''error'' = JStr ''Apps Script returned success: false'')
       \<and> (truthy success \<and> \<not> isArray data \<longrightarrow>
            code (fetch_pif w) = 500
          \<and> field (payload (fetch_pif w)) ''success'' = JBool False
          \<and> field (payload (fetch_pif w)) ''error'' = JStr ''Invalid data format from Apps Script'')"
proof -
  note body = fetch_pif_try_parsed [OF assms]
  have supplied: "fetch_pif_try w = Inl (Error m)"
    if "\<not> truthy success" "error = JStr m" "m \<noteq> []"
    using that body by (simp add: throw_new_Error_def new_Error_def js_or_def)
  have generic: "fetch_pif_try w = Inl (Error ''Apps Script returned success: false'')"
    if "\<not> truthy success" "\<not> truthy error"
    using that body by (simp add: throw_new_Error_def new_Error_def js_or_def)
  have invalid: "fetch_pif_try w = Inl (Error ''Invalid data format from Apps Script'')"
    if "truthy success" "\<not> isArray data"
    using that body by simp
  show ?thesis
    using fetch_pif_caught [OF supplied] fetch_pif_caught [OF generic]
      fetch_pif_caught [OF invalid]
    by simp
qed

text \<open>
  The examples of the specification: \<open>{success: false, error: "quota exceeded"}\<close>,
  a body with no \<open>error\<close>, and \<open>{success: true, data: "not-an-array"}\<close>.
\<close>

theorem fetch_pif_format_errors_witness:
  "code (fetch_pif (answered (JObj [(''success'', JBool False), (''error'', JStr ''quota exceeded'')]))) = 500
   \<and> field (payload (fetch_pif (answered (JObj [(''success'', JBool False), (''error'', JStr ''quota exceeded'')])))) ''error''
       = JStr ''quota exceeded''
   \<and> field (payload (fetch_pif (answered (JObj [(''success'', JBool False)])))) ''error''
       = JStr ''Apps Script returned success: false''
   \<and> code (fetch_pif (answered (JObj [(''success'', JBool True), (''data'', JStr ''not-an-array'')]))) = 500
   \<and> field (payload (fetch_pif (answered (JObj [(''success'', JBool True), (''data'', JStr ''not-an-array'')])))) ''error''
       = JStr ''Invalid data format from Apps Script''"
proof -
  let ?quota = "JObj [(''success'', JBool False), (''error'', JStr ''quota exceeded'')]"
  let ?bare = "JObj [(''success'', JBool False)]"
  let ?text = "JObj [(''success'', JBool True), (''data'', JStr ''not-an-array'')]"
  have a: "code (fetch_pif (answered ?quota)) = 500
      \<and> field (payload (fetch_pif (answered ?quota))) ''error'' = JStr ''quota exceeded''"
    using fetch_pif_format_errors [where w = "answered ?quota" and result = ?quota
        and response = "\<lparr>ok = True, status = 200, statusText = ''OK'', json = Parsed ?quota\<rparr>"
        and success = "JBool False" and error = "JStr ''quota exceeded''"
        and data = JUndefined and m = "''quota exceeded''"]
    by (simp add: answered_def)
  have b: "field (payload (fetch_pif (answered ?bare))) ''error''
      = JStr ''Apps Script returned success: false''"
    using fetch_pif_format_errors [where w = "answered ?bare" and result = ?bare
        and response = "\<lparr>ok = True, status = 200, statusText = ''OK'', json = Parsed ?bare\<rparr>"
        and success = "JBool False" and error = JUndefined and data = JUndefined]
    by (simp add: answered_def)
  have c: "code (fetch_pif (answered ?text)) = 500
      \<and> field (payload (fetch_pif (answered ?text))) ''error'' = JStr ''Invalid data format from Apps Script''"
    using fetch_pif_format_errors [where w = "answered ?text" and result = ?text
        and response = "\<lparr>ok = True, status = 200, statusText = ''OK'', json = Parsed ?text\<rparr>"
        and success = "JBool True" and error = JUndefined and data = "JStr ''not-an-array''"]
    by (simp add: answered_def)
  from a b c show ?thesis by simp
qed

text \<open>
  The claim as written gives the generic message only when the upstream's is absent: an
  \<open>error\<close> that is present and empty is replaced by the generic message as well.
\<close>

theorem fetch_pif_empty_error_counterexample:
  "js_field (JObj [(''success'', JBool False), (''error'', JStr '''')]) ''error'' = Inr (JStr '''')
   \<and> field (payload (fetch_pif (answered (JObj [(''success'', JBool False), (''error'', JStr '''')])))) ''error''
       = JStr ''Apps Script returned success: false''"
  by (simp add: fetch_pif_def fetch_pif_try_def answered_def throw_new_Error_def new_Error_def js_or_def)

text \<open>
  Claim C4.  On /fetch-pif, whenever the upstream status is not in the success range
  (\<open>response.ok\<close> is false), the error thrown carries the numeric status and the status
  text, and the reply is 500 with \<open>success: false\<close> and an \<open>error\<close> string in which the
  status (and the status text) occurs.
\<close>

theorem fetch_pif_http_error:
  assumes "upstream w = Resolved response" "\<not> ok response"
  shows "code (fetch_pif w) = 500
       \<and> field (payload (fetch_pif w)) ''success'' = JBool False
       \<and> field (payload (fetch_pif w)) ''error''
           = JStr (''Apps Script returned '' @ show_int (status response) @ '': ''
                   @ statusText response)
       \<and> (\<exists>m. field (payload (fetch_pif w)) ''error'' = JStr m
              \<and> sublist (show_int (status response)) m \<and> sublist (statusText response) m)"
proof -
  let ?m = "''Apps Script returned '' @ show_int (status response) @ '': '' @ statusText response"
  have "fetch_pif_try w = Inl (Error ?m)"
    using assms by (simp add: fetch_pif_try_def)
  from fetch_pif_caught [OF this]
  have sent: "code (fetch_pif w) = 500"
      "field (payload (fetch_pif w)) ''success'' = JBool False"
      "field (payload (fetch_pif w)) ''error'' = JStr ?m"
    by simp_all
  have "sublist (show_int (status response)) ?m"
    unfolding sublist_def by blast
  moreover have "sublist (statusText response) ?m"
    unfolding sublist_def
    by (rule exI [of _ "''Apps Script returned '' @ show_int (status response) @ '': ''"],
        rule exI [of _ "[]"]) simp
  ultimately show ?thesis using sent by simp
qed

text \<open>Upstream status 503: the reply is 500 and its error mentions 503.\<close>

theorem fetch_pif_http_error_witness:
  "code (fetch_pif (refused 503 ''Service Unavailable'')) = 500
   \<and> field (payload (fetch_pif (refused 503 ''Service Unavailable''))) ''success'' = JBool False
   \<and> field (payload (fetch_pif (refused 503 ''Service Unavailable''))) ''error''
       = JStr ''Apps Script returned 503: Service Unavailable''
   \<and> sublist ''503'' ''Apps Script returned 503: Service Unavailable''"
proof -
  let ?w = "refused 503 ''Service Unavailable''"
  let ?response = "\<lparr>ok = False, status = 503, statusText = ''Service Unavailable'', json = Unparsable []\<rparr>"
  have up: "upstream ?w = Resolved ?response" and bad: "\<not> ok ?response"
    by (simp_all add: refused_def)
  from fetch_pif_http_error [OF up bad]
  obtain m where "code (fetch_pif ?w) = 500"
      "field (payload (fetch_pif ?w)) ''success'' = JBool False"
      "field (payload (fetch_pif ?w)) ''error'' = JStr ''Apps Script returned 503: Service Unavailable''"
      "field (payload (fetch_pif ?w)) ''error'' = JStr m" "sublist ''503'' m"
    by (auto simp: show_int_503)
  then show ?thesis by simp
qed

text \<open>
  Claim C10.  A body \<open>{success: true, data: []}\<close> is not a failure: /fetch-pif replies
  200 with \<open>success: true\<close>, \<open>data: []\<close> and \<open>count: 0\<close>, while a body with no
  \<open>data\<close> is answered 500 with the invalid-data-format message.
\<close>

theorem fetch_pif_empty_data:
  assumes "upstream w = Resolved response" "ok response" "json response = Parsed result"
    and "js_field result ''success'' = Inr success" "truthy success"
    and "js_field result ''data'' = Inr data"
  shows "(data = JArr [] \<longrightarrow>
            fetch_pif w = \<lparr>code = 200, payload = Json (JObj
              [(''success'', JBool True),
               (''data'', JArr []),
               (''count'', JNum 0),
               (''source'', JStr ''PIF+AI Google Sheet''),
               (''timestamp'', JStr (toISOString w)),
               (''elapsed'', JStr (elapsed w))])\<rparr>)
       \<and> (data = JUndefined \<longrightarrow>
            code (fetch_pif w) = 500
          \<and> field (payload (fetch_pif w)) ''error'' = JStr ''Invalid data format from Apps Script'')"
  using assms by (simp add: fetch_pif_def fetch_pif_try_def transformedData_def)

theorem fetch_pif_empty_data_witness:
  "fetch_pif (answered (JObj [(''success'', JBool True), (''data'', JArr [])]))
   = \<lparr>code = 200, payload = Json (JObj
        [(''success'', JBool True),
         (''data'', JArr []),
         (''count'', JNum 0),
         (''source'', JStr ''PIF+AI Google Sheet''),
         (''timestamp'', JStr ''2023-11-14T22:13:20.250Z''),
         (''elapsed'', JStr ''250ms'')])\<rparr>
   \<and> code (fetch_pif (answered (JObj [(''success'', JBool True)]))) = 500"
proof -
  let ?empty = "JObj [(''success'', JBool True), (''data'', JArr [])]"
  let ?absent = "JObj [(''success'', JBool True)]"
  have a: "fetch_pif (answered ?empty) = \<lparr>code = 200, payload = Json (JObj
        [(''success'', JBool True),
         (''data'', JArr []),
         (''count'', JNum 0),
         (''source'', JStr ''PIF+AI Google Sheet''),
         (''timestamp'', JStr (toISOString (answered ?empty))),
         (''elapsed'', JStr (elapsed (answered ?empty)))])\<rparr>"
    using fetch_pif_empty_data [where w = "answered ?empty" and result = ?empty
        and response = "\<lparr>ok = True, status = 200, statusText = ''OK'', json = Parsed ?empty\<rparr>"
        and success = "JBool True" and data = "JArr []"]
    by (simp add: answered_def)
  have b: "code (fetch_pif (answered ?absent)) = 500"
    using fetch_pif_empty_data [where w = "answered ?absent" and result = ?absent
        and response = "\<lparr>ok = True, status = 200, statusText = ''OK'', json = Parsed ?absent\<rparr>"
        and success = "JBool True" and data = JUndefined]
    by (simp add: answered_def)
  from a b show ?thesis by (simp add: elapsed_answered) (simp add: answered_def)
qed

section \<open>GET /fetch-pif-raw\<close>

text \<open>
  Claim C5, amended.  For every parsed body received with an OK status whose \<open>data\<close> is
  an array, a string, \<open>null\<close> or absent, /fetch-pif-raw replies 200 with \<open>{success,
  count, sample, fullData}\<close>: \<open>success\<close> is the upstream's, unchanged (absent when the
  upstream's is), \<open>count\<close> is the length of \<open>data\<close> or 0, \<open>sample\<close> its first five
  rows (or \<open>[]\<close>) and \<open>fullData\<close> all of it (or \<open>[]\<close>), with no column reordered; so
  for at most five rows both equal the upstream \<open>data\<close>.  For a string the length and the
  first five are those of its characters.
\<close>

theorem fetch_pif_raw_success:
  assumes "upstream w = Resolved response" "ok response" "json response = Parsed result"
    and "js_field result ''success'' = Inr success"
    and "js_field result ''data'' = Inr data"
  shows "(data = JArr rows \<longrightarrow>
            fetch_pif_raw w = \<lparr>code = 200, payload = Json (JObj
              [(''success'', success),
               (''count'', JNum (of_nat (length rows))),
               (''sample'', JArr (take 5 rows)),
               (''fullData'', JArr rows)])\<rparr>)
       \<and> (data = JArr rows \<and> length rows \<le> 5 \<longrightarrow>
            field (payload (fetch_pif_raw w)) ''sample'' = data
          \<and> field (payload (fetch_pif_raw w)) ''fullData'' = data)
       \<and> (data = JUndefined \<or> data = JNull \<or> data = JStr [] \<longrightarrow>
            fetch_pif_raw w = \<lparr>code = 200, payload = Json (JObj
              [(''success'', success),
               (''count'', JNum 0),
               (''sample'', JArr []),
               (''fullData'', JArr [])])\<rparr>)
       \<and> (data = JStr s \<and> s \<noteq> [] \<longrightarrow>
            fetch_pif_raw w = \<lparr>code = 200, payload = Json (JObj
              [(''success'', success),
               (''count'', JNum (of_nat (length s))),
               (''sample'', JStr (take 5 s)),
               (''fullData'', JStr s)])\<rparr>)"
proof -
  note body = fetch_pif_raw_try_parsed [OF assms]
  have array: "fetch_pif_raw_try w = Inr \<lparr>code = 200, payload = Json (JObj
              [(''success'', success),
               (''count'', JNum (of_nat (length rows))),
               (''sample'', JArr (take 5 rows)),
               (''fullData'', JArr rows)])\<rparr>" if "data = JArr rows"
    using that body by (cases rows) (simp_all add: js_or_def)
  have nullish: "fetch_pif_raw_try w = Inr \<lparr>code = 200, payload = Json (JObj
              [(''success'', success),
               (''count'', JNum 0),
               (''sample'', JArr []),
               (''fullData'', JArr [])])\<rparr>"
    if "data = JUndefined \<or> data = JNull \<or> data = JStr []"
    using that body by (auto simp: js_or_def show_int_def digits.simps)
  have chars: "fetch_pif_raw_try w = Inr \<lparr>code = 200, payload = Json (JObj
              [(''success'', success),
               (''count'', JNum (of_nat (length s))),
               (''sample'', JStr (take 5 s)),
               (''fullData'', JStr s)])\<rparr>" if "data = JStr s" "s \<noteq> []"
    using that body by (simp add: js_or_def)
  show ?thesis
    using array nullish chars by (auto simp: fetch_pif_raw_def)
qed

text \<open>
  The successful payload of the specification's example, and a body with neither
  \<open>success\<close> nor \<open>data\<close>.
\<close>

theorem fetch_pif_raw_success_witness:
  "fetch_pif_raw (answered (JObj [(''success'', JBool True),
       (''data'', JArr [JArr [JStr ''x'', JStr ''SYM'', JStr ''Name'', JStr ''4.5'']])]))
   = \<lparr>code = 200, payload = Json (JObj
        [(''success'', JBool True),
         (''count'', JNum 1),
         (''sample'', JArr [JArr [JStr ''x'', JStr ''SYM'', JStr ''Name'', JStr ''4.5'']]),
         (''fullData'', JArr [JArr [JStr ''x'', JStr ''SYM'', JStr ''Name'', JStr ''4.5'']])])\<rparr>
   \<and> fetch_pif_raw (answered (JObj [(''error'', JStr ''quota exceeded'')]))
   = \<lparr>code = 200, payload = Json (JObj
        [(''success'', JUndefined),
         (''count'', JNum 0),
         (''sample'', JArr []),
         (''fullData'', JArr [])])\<rparr>"
proof -
  let ?rows = "[JArr [JStr ''x'', JStr ''SYM'', JStr ''Name'', JStr ''4.5'']]"
  let ?full = "JObj [(''success'', JBool True), (''data'', JArr ?rows)]"
  let ?bare = "JObj [(''error'', JStr ''quota exceeded'')]"
  have a: "fetch_pif_raw (answered ?full) = \<lparr>code = 200, payload = Json (JObj
        [(''success'', JBool True),
         (''count'', JNum 1),
         (''sample'', JArr ?rows),
         (''fullData'', JArr ?rows)])\<rparr>"
    using fetch_pif_raw_success [where w = "answered ?full" and result = ?full
        and response = "\<lparr>ok = True, status = 200, statusText = ''OK'', json = Parsed ?full\<rparr>"
        and success = "JBool True" and data = "JArr ?rows" and rows = ?rows]
    by (simp add: answered_def)
  have b: "fetch_pif_raw (answered ?bare) = \<lparr>code = 200, payload = Json (JObj
        [(''success'', JUndefined),
         (''count'', JNum 0),
         (''sample'', JArr []),
         (''fullData'', JArr [])])\<rparr>"
    using fetch_pif_raw_success [where w = "answered ?bare" and result = ?bare
        and response = "\<lparr>ok = True, status = 200, statusText = ''OK'', json = Parsed ?bare\<rparr>"
        and success = JUndefined and data = JUndefined]
    by (simp add: answered_def)
  from a b show ?thesis by simp
qed

text \<open>
  The claim as written covers every body: with \<open>data: 5\<close> the optional call
  \<open>result.data?.slice(0, 5)\<close> throws, since 5 is not \<open>null\<close> and has no \<open>slice\<close>, and
  the reply is 500.
\<close>

theorem fetch_pif_raw_number_counterexample:
  "js_field (JObj [(''success'', JBool True), (''data'', JNum 5)]) ''data'' = Inr (JNum 5)
   \<and> code (fetch_pif_raw (answered (JObj [(''success'', JBool True), (''data'', JNum 5)]))) = 500"
  by (simp add: fetch_pif_raw_def fetch_pif_raw_try_def answered_def js_or_def)

section \<open>All routes\<close>

text \<open>
  Claim C8.  GET / and GET /health reply 200 with a JSON body holding the status token
  \<open>ok\<close>, a service name and the current timestamp, and for / also the map of the
  endpoints with their methods and paths.  Neither reads the outcome of an upstream call:
  the reply is the same whatever the upstream does.
\<close>

theorem health_routes:
  "app w \<lparr>http_method = ''GET'', path = ''/''\<rparr>
     = Some \<lparr>code = 200, payload = Json (JObj
         [(''status'', JStr ''ok''),
          (''timestamp'', JStr (toISOString w)),
          (''message'', JStr ''PIF+AI Lookup Relay - Active''),
          (''service'', JStr ''PIF+AI Sheet Data Provider''),
          (''endpoints'', JObj [(''health'', JStr ''GET /health''),
                                (''fetchPIF'', JStr ''GET /fetch-pif'')])])\<rparr>
   \<and> app w \<lparr>http_method = ''GET'', path = ''/health''\<rparr>
     = Some \<lparr>code = 200, payload = Json (JObj
         [(''status'', JStr ''ok''),
          (''service'', JStr ''PIF+AI Lookup Relay''),
          (''timestamp'', JStr (toISOString w))])\<rparr>
   \<and> app (w\<lparr>upstream := u\<rparr>) \<lparr>http_method = ''GET'', path = ''/''\<rparr>
     = app w \<lparr>http_method = ''GET'', path = ''/''\<rparr>
   \<and> app (w\<lparr>upstream := u\<rparr>) \<lparr>http_method = ''GET'', path = ''/health''\<rparr>
     = app w \<lparr>http_method = ''GET'', path = ''/health''\<rparr>"
  by (simp add: app_def root_def health_def)

text \<open>
  Claim C6, amended.  Every JSON body sent on /, /health and /fetch-pif, on success and on
  failure, has a \<open>timestamp\<close> field: the string \<open>new Date().toISOString()\<close> returned,
  so a well-formed ISO-8601 timestamp whenever that method returns one.  The bodies of
  /fetch-pif-raw have no \<open>timestamp\<close> field.
\<close>

theorem timestamp_fields:
  "(app w req = Some sent \<and> http_method req = ''GET''
      \<and> (path req = ''/'' \<or> path req = ''/health'' \<or> path req = ''/fetch-pif'')
      \<longrightarrow> field (payload sent) ''timestamp'' = JStr (toISOString w)
        \<and> (iso8601 (toISOString w)
             \<longrightarrow> (\<exists>ts. field (payload sent) ''timestamp'' = JStr ts \<and> iso8601 ts)))
   \<and> (app w req = Some sent \<and> http_method req = ''GET'' \<and> path req = ''/fetch-pif-raw''
      \<longrightarrow> field (payload sent) ''timestamp'' = JUndefined)"
  using fetch_pif_timestamp [of w] fetch_pif_raw_no_timestamp [of w]
  by (auto simp: app_def root_def health_def)

text \<open>
  With the upstream unreachable, at an instant of November 2023: /, and /fetch-pif on its
  failure path, carry that instant; /fetch-pif-raw carries none.
\<close>

theorem timestamp_fields_witness:
  "iso8601 ''2023-11-14T22:13:20.250Z''
   \<and> field (payload (root (unreachable ''network timeout''))) ''timestamp''
     = JStr ''2023-11-14T22:13:20.250Z''
   \<and> field (payload (fetch_pif (unreachable ''network timeout''))) ''timestamp''
     = JStr ''2023-11-14T22:13:20.250Z''
   \<and> field (payload (fetch_pif_raw (unreachable ''network timeout''))) ''timestamp''
     = JUndefined"
proof -
  let ?w = "unreachable ''network timeout''"
  have now: "toISOString ?w = ''2023-11-14T22:13:20.250Z''"
    by (simp add: unreachable_def answered_def)
  have wf: "iso8601 (toISOString ?w)"
    unfolding now by (simp add: iso8601_def is_digit_def)
  have a: "field (payload (root ?w)) ''timestamp'' = JStr (toISOString ?w)
      \<and> (\<exists>ts. field (payload (root ?w)) ''timestamp'' = JStr ts \<and> iso8601 ts)"
    using wf timestamp_fields [of ?w "\<lparr>http_method = ''GET'', path = ''/''\<rparr>" "root ?w"]
    by (simp add: app_def)
  have b: "field (payload (fetch_pif ?w)) ''timestamp'' = JStr (toISOString ?w)
      \<and> (\<exists>ts. field (payload (fetch_pif ?w)) ''timestamp'' = JStr ts \<and> iso8601 ts)"
    using wf timestamp_fields [of ?w "\<lparr>http_method = ''GET'', path = ''/fetch-pif''\<rparr>"
        "fetch_pif ?w"]
    by (simp add: app_def)
  have c: "field (payload (fetch_pif_raw ?w)) ''timestamp'' = JUndefined"
    using timestamp_fields [of ?w "\<lparr>http_method = ''GET'', path = ''/fetch-pif-raw''\<rparr>"
        "fetch_pif_raw ?w"]
    by (simp add: app_def)
  from wf a b c show ?thesis by (simp add: now)
qed

text \<open>The claim as written includes /fetch-pif-raw, whose success body has four fields.\<close>

theorem raw_body_timestamp_counterexample:
  "app (answered (JObj [(''success'', JBool True), (''data'', JArr [])]))
       \<lparr>http_method = ''GET'', path = ''/fetch-pif-raw''\<rparr>
   = Some \<lparr>code = 200, payload = Json (JObj
        [(''success'', JBool True),
         (''count'', JNum 0),
         (''sample'', JArr []),
         (''fullData'', JArr [])])\<rparr>
   \<and> field (Json (JObj
        [(''success'', JBool True),
         (''count'', JNum 0),
         (''sample'', JArr []),
         (''fullData'', JArr [])])) ''timestamp'' = JUndefined"
  by (simp add: app_def fetch_pif_raw_def fetch_pif_raw_try_def answered_def js_or_def
        show_int_def digits.simps)

text \<open>
  Claim C7, amended.  Every error thrown in the \<open>try\<close> block of a data route (a network
  failure or timeout of \<open>fetch\<close>, a non-OK upstream status, an unparsable or malformed
  body, or any other) is caught by the route's \<open>catch\<close> block and answered 500: on
  /fetch-pif with the body \<open>{success: false, error, timestamp, elapsed}\<close>, on
  /fetch-pif-raw with the body \<open>{success: false, error}\<close>, \<open>error\<close> being the message
  of the error.  A data route always replies, with 200 or 500.
\<close>

theorem errors_caught:
  "(fetch_pif_try w = Inl e \<longrightarrow>
      fetch_pif w = \<lparr>code = 500, payload = Json (JObj
        [(''success'', JBool False),
         (''error'', JStr (message (wording w) e)),
         (''timestamp'', JStr (toISOString w)),
         (''elapsed'', JStr (elapsed w))])\<rparr>)
   \<and> (fetch_pif_raw_try w = Inl e \<longrightarrow>
      fetch_pif_raw w = \<lparr>code = 500, payload = Json (JObj
        [(''success'', JBool False),
         (''error'', JStr (message (wording w) e))])\<rparr>)
   \<and> (upstream w = Rejected m \<longrightarrow>
      fetch_pif_try w = Inl (Error m) \<and> fetch_pif_raw_try w = Inl (Error m))
   \<and> (upstream w = Resolved response \<and> \<not> ok response \<longrightarrow>
      fetch_pif_try w = Inl (Error (''Apps Script returned '' @ show_int (status response)
                                    @ '': '' @ statusText response))
    \<and> fetch_pif_raw_try w = Inl (Error (''Apps Script returned '' @ show_int (status response))))
   \<and> (upstream w = Resolved response \<and> ok response \<and> json response = Unparsable m \<longrightarrow>
      fetch_pif_try w = Inl (Error m) \<and> fetch_pif_raw_try w = Inl (Error m))
   \<and> (code (fetch_pif w) = 200 \<or> code (fetch_pif w) = 500)
   \<and> (code (fetch_pif_raw w) = 200 \<or> code (fetch_pif_raw w) = 500)"
proof -
  have a: "code (fetch_pif w) = 200 \<or> code (fetch_pif w) = 500"
  proof (cases "fetch_pif_try w")
    case (Inl e)
    from fetch_pif_caught [OF this] show ?thesis by simp
  next
    case (Inr sent)
    with fetch_pif_try_sent [OF Inr] show ?thesis by (auto simp: fetch_pif_def)
  qed
  have b: "code (fetch_pif_raw w) = 200 \<or> code (fetch_pif_raw w) = 500"
  proof (cases "fetch_pif_raw_try w")
    case (Inl e)
    from fetch_pif_raw_caught [OF this] show ?thesis by simp
  next
    case (Inr sent)
    with fetch_pif_raw_try_sent [OF Inr] show ?thesis by (auto simp: fetch_pif_raw_def)
  qed
  have c: "fetch_pif_try w = Inl (Error m) \<and> fetch_pif_raw_try w = Inl (Error m)"
    if "upstream w = Rejected m"
    using that by (simp add: fetch_pif_try_def fetch_pif_raw_try_def)
  have d: "fetch_pif_try w = Inl (Error (''Apps Script returned '' @ show_int (status response)
                                    @ '': '' @ statusText response))
    \<and> fetch_pif_raw_try w = Inl (Error (''Apps Script returned '' @ show_int (status response)))"
    if "upstream w = Resolved response" "\<not> ok response"
    using that by (simp add: fetch_pif_try_def fetch_pif_raw_try_def)
  have e: "fetch_pif_try w = Inl (Error m) \<and> fetch_pif_raw_try w = Inl (Error m)"
    if "upstream w = Resolved response" "ok response" "json response = Unparsable m"
    using that by (simp add: fetch_pif_try_def fetch_pif_raw_try_def)
  show ?thesis
    using a b c d e fetch_pif_caught [of w e] fetch_pif_raw_caught [of w e] by blast
qed

theorem errors_caught_witness:
  "fetch_pif (unreachable ''network timeout'')
     = \<lparr>code = 500, payload = Json (JObj
        [(''success'', JBool False),
         (''error'', JStr ''network timeout''),
         (''timestamp'', JStr ''2023-11-14T22:13:20.250Z''),
         (''elapsed'', JStr ''250ms'')])\<rparr>
   \<and> fetch_pif_raw (unreachable ''network timeout'')
     = \<lparr>code = 500, payload = Json (JObj
        [(''success'', JBool False),
         (''error'', JStr ''network timeout'')])\<rparr>"
proof -
  let ?w = "unreachable ''network timeout''"
  have up: "upstream ?w = Rejected ''network timeout''"
    by (simp add: unreachable_def)
  note caught = errors_caught [of ?w "Error ''network timeout''" "''network timeout''"]
  from caught up have thrown: "fetch_pif_try ?w = Inl (Error ''network timeout'')"
    "fetch_pif_raw_try ?w = Inl (Error ''network timeout'')" by blast+
  from caught thrown have "fetch_pif ?w = \<lparr>code = 500, payload = Json (JObj
        [(''success'', JBool False),
         (''error'', JStr (message (wording ?w) (Error ''network timeout''))),
         (''timestamp'', JStr (toISOString ?w)),
         (''elapsed'', JStr (elapsed ?w))])\<rparr>"
    and "fetch_pif_raw ?w = \<lparr>code = 500, payload = Json (JObj
        [(''success'', JBool False),
         (''error'', JStr (message (wording ?w) (Error ''network timeout'')))])\<rparr>"
    by blast+
  then show ?thesis
    by (simp add: unreachable_def elapsed_def answered_def show_int_def digits.simps)
qed

text \<open>
  The claim as written gives /fetch-pif-raw the same error body as /fetch-pif, but its body
  has neither \<open>timestamp\<close> nor \<open>elapsed\<close>.
\<close>

theorem raw_error_body_counterexample:
  "fetch_pif_raw (refused 503 ''Service Unavailable'')
     = \<lparr>code = 500, payload = Json (JObj
        [(''success'', JBool False),
         (''error'', JStr ''Apps Script returned 503'')])\<rparr>
   \<and> field (payload (fetch_pif_raw (refused 503 ''Service Unavailable''))) ''timestamp'' = JUndefined
   \<and> field (payload (fetch_pif_raw (refused 503 ''Service Unavailable''))) ''elapsed'' = JUndefined"
  by (simp add: fetch_pif_raw_def fetch_pif_raw_try_def refused_def show_int_def digits.simps)

end
